theory Spec2Isabelle
  imports Main "HOL-Library.Sublist"
begin

section \<open>Common ground of the two contracts\<close>

text \<open>
  The repository holds two Solidity contracts of the same protocol:
  \<^verbatim>\<open>contracts/src/AgentEscrow.sol\<close> (the main contract of the README and of the
  test suite) and \<^verbatim>\<open>contracts/src/Escrow.sol\<close> (the V1 variant). Both are embedded
  here, function by function.

  Solidity values: an \<^verbatim>\<open>address\<close>, a \<^verbatim>\<open>bytes32\<close> and a \<^verbatim>\<open>uint256\<close> are natural
  numbers; \<^verbatim>\<open>address(0)\<close> and \<^verbatim>\<open>bytes32(0)\<close> are \<open>0\<close>. The compiler is
  \<^verbatim>\<open>^0.8.20\<close>, so \<open>+\<close>, \<open>-\<close> and \<open>*\<close> on \<^verbatim>\<open>uint256\<close> revert with a panic where
  the result leaves the range; the three checked operations below write that out.
  A revert undoes every effect of the call: an operation that reverts returns \<open>Inl\<close>
  of its error and no state at all.

  Beside the errors the two contracts declare, \<open>Panic\<close> is the arithmetic panic,
  \<open>CalleeReverted\<close> a revert of the called token passed on, and \<open>EmptyRevert\<close> the
  revert without data of the compiled entry point: a function not marked \<^verbatim>\<open>payable\<close>
  reverts so when the call carries value, before any modifier runs, and so does a call
  whose \<^verbatim>\<open>uint8\<close> argument is a word above 255. Arguments of the types \<^verbatim>\<open>address\<close>,
  \<^verbatim>\<open>bytes32\<close> and \<^verbatim>\<open>uint256\<close> are taken inside the range of their type.
\<close>

type_synonym address = nat
type_synonym bytes32 = nat
type_synonym uint256 = nat

datatype error =
    OnlyArbitrator | OnlyClient | OnlyWorker
  | InvalidState | InvalidAmount | DeadlinePassed | ReviewPeriodActive | TransferFailed
  | InvalidWorker | InvalidDeadline | EscrowNotFound | NotAuthorized | InvalidPercentage
  | Panic
  | CalleeReverted
  | EmptyRevert

definition MAX_UINT256 :: nat where
  "MAX_UINT256 = 2 ^ 256 - 1"

definition add256 :: "uint256 \<Rightarrow> uint256 \<Rightarrow> error + uint256" where
  "add256 a b = (if a + b \<le> MAX_UINT256 then Inr (a + b) else Inl Panic)"

definition sub256 :: "uint256 \<Rightarrow> uint256 \<Rightarrow> error + uint256" where
  "sub256 a b = (if b \<le> a then Inr (a - b) else Inl Panic)"

definition mul256 :: "uint256 \<Rightarrow> uint256 \<Rightarrow> error + uint256" where
  "mul256 a b = (if a * b \<le> MAX_UINT256 then Inr (a * b) else Inl Panic)"

fun and_then :: "error + 'a \<Rightarrow> ('a \<Rightarrow> error + 'b) \<Rightarrow> error + 'b" where
  "and_then (Inl err) f = Inl err"
| "and_then (Inr x) f = f x"

text \<open>
  The transaction context: \<^verbatim>\<open>msg.sender\<close>, \<^verbatim>\<open>msg.value\<close> and \<^verbatim>\<open>block.timestamp\<close>.
\<close>

record tx =
  msg_sender :: address
  msg_value :: uint256
  block_timestamp :: uint256

text \<open>
  The contracts call into code that is not theirs: the recipient of a native payment
  (\<^verbatim>\<open>to.call{value: amount}("")\<close>) and the ERC20 token (\<^verbatim>\<open>transfer\<close>,
  \<^verbatim>\<open>transferFrom\<close> of the \<^verbatim>\<open>IERC20\<close> interface). What that code answers is a parameter
  of every operation, the \<open>world\<close>: the call is \<open>Accepted\<close> (the low-level call
  succeeds, the token moves the balance and returns \<^verbatim>\<open>true\<close>), \<open>Rejected\<close> (the token
  moves nothing and returns \<^verbatim>\<open>false\<close>, as \<^verbatim>\<open>MaliciousToken\<close> of the stress test does),
  or \<open>Reverted\<close> (the callee reverts). An operation returns, next to the new state, the
  list of external calls that moved a balance. The recipients are taken not to call back
  into the contract.
\<close>

datatype reply = Accepted | Rejected | Reverted

datatype call =
    NativeSend address uint256
  | TokenTransfer address address uint256
  | TokenTransferFrom address address uint256

type_synonym world = "call \<Rightarrow> reply"

fun moved :: "call \<Rightarrow> uint256" where
  "moved (NativeSend recipient n) = n"
| "moved (TokenTransfer token recipient n) = n"
| "moved (TokenTransferFrom token payer n) = n"


definition total_moved :: "call list \<Rightarrow> nat" where
  "total_moved cs = sum_list (map moved cs)"


section \<open>Escrow.sol\<close>

text \<open>
  The V1 contract. Where a name of it is also a name of \<^verbatim>\<open>AgentEscrow.sol\<close>, the one
  here carries the suffix \<open>_V1\<close>. The modifier \<^verbatim>\<open>nonReentrant\<close> does nothing in this
  model, where no recipient calls back. Only \<^verbatim>\<open>createEscrow\<close> is \<^verbatim>\<open>payable\<close>.
\<close>

datatype EscrowState_V1 = PENDING | ACTIVE | SUBMITTED | DISPUTED | RESOLVED | CANCELLED

record EscrowData =
  client :: address
  worker :: address
  arbiter :: address
  token :: address
  amount :: uint256
  deadline :: uint256
  criteriaHash :: bytes32
  evidenceHash :: bytes32
  state :: EscrowState_V1
  createdAt :: uint256
  submittedAt :: uint256

definition zero_EscrowData :: EscrowData where
  "zero_EscrowData = \<lparr> client = 0, worker = 0, arbiter = 0, token = 0, amount = 0,
     deadline = 0, criteriaHash = 0, evidenceHash = 0, state = PENDING, createdAt = 0,
     submittedAt = 0 \<rparr>"

record Escrow_V1 =
  escrows :: "bytes32 \<Rightarrow> EscrowData"
  escrowCounter :: uint256
  protocolArbiter :: address
  owner :: address

definition MIN_ESCROW :: uint256 where "MIN_ESCROW = 10 ^ 15"
definition MAX_ESCROW :: uint256 where "MAX_ESCROW = 5 * 10 ^ 18"
definition REVIEW_TIMEOUT :: uint256 where "REVIEW_TIMEOUT = 4 * 3600"
definition ARBITER_FEE_BPS :: uint256 where "ARBITER_FEE_BPS = 500"
definition DISPUTE_FEE_BPS :: uint256 where "DISPUTE_FEE_BPS = 100"
definition BPS_DENOMINATOR :: uint256 where "BPS_DENOMINATOR = 10000"

definition constructor_V1 :: "tx \<Rightarrow> address \<Rightarrow> Escrow_V1" where
  "constructor_V1 t a = \<lparr> escrows = (\<lambda>i. zero_EscrowData), escrowCounter = 0,
     protocolArbiter = a, owner = msg_sender t \<rparr>"

text \<open>\<^verbatim>\<open>_transferFunds\<close>: both branches test the success flag.\<close>

definition transferFunds :: "world \<Rightarrow> address \<Rightarrow> address \<Rightarrow> uint256 \<Rightarrow> error + call list" where
  "transferFunds w tok recipient n =
     (if tok = 0 then
        (if w (NativeSend recipient n) = Accepted then Inr [NativeSend recipient n]
         else Inl TransferFailed)
      else
        (case w (TokenTransfer tok recipient n) of
           Accepted \<Rightarrow> Inr [TokenTransfer tok recipient n]
         | Rejected \<Rightarrow> Inl TransferFailed
         | Reverted \<Rightarrow> Inl CalleeReverted))"

text \<open>
  \<^verbatim>\<open>_generateEscrowId\<close> hashes \<^verbatim>\<open>(block.timestamp, msg.sender, _escrowCounter++)\<close>; the
  hash function is the parameter \<open>keccak\<close>.
\<close>

definition createEscrow_V1 ::
  "(uint256 \<Rightarrow> address \<Rightarrow> uint256 \<Rightarrow> bytes32) \<Rightarrow> Escrow_V1 \<Rightarrow> tx \<Rightarrow>
     address \<Rightarrow> uint256 \<Rightarrow> bytes32 \<Rightarrow> error + (bytes32 \<times> Escrow_V1 \<times> call list)" where
  "createEscrow_V1 keccak s t wk dl crit =
     (if msg_value t < MIN_ESCROW \<or> msg_value t > MAX_ESCROW then Inl InvalidAmount
      else if wk = 0 \<or> wk = msg_sender t then Inl InvalidWorker
      else if dl \<le> block_timestamp t then Inl InvalidDeadline
      else
        and_then (add256 (escrowCounter s) 1) (\<lambda>counter'.
        let escrowId = keccak (block_timestamp t) (msg_sender t) (escrowCounter s) in
        Inr (escrowId,
             s\<lparr> escrowCounter := counter',
                escrows := (escrows s)(escrowId :=
                  \<lparr> client = msg_sender t, worker = wk, arbiter = protocolArbiter s, token = 0,
                    amount = msg_value t, deadline = dl, criteriaHash = crit, evidenceHash = 0,
                    state = PENDING, createdAt = block_timestamp t, submittedAt = 0 \<rparr>) \<rparr>,
             [])))"

definition createEscrowERC20 ::
  "(uint256 \<Rightarrow> address \<Rightarrow> uint256 \<Rightarrow> bytes32) \<Rightarrow> world \<Rightarrow> Escrow_V1 \<Rightarrow> tx \<Rightarrow>
     address \<Rightarrow> address \<Rightarrow> uint256 \<Rightarrow> uint256 \<Rightarrow> bytes32 \<Rightarrow>
     error + (bytes32 \<times> Escrow_V1 \<times> call list)" where
  "createEscrowERC20 keccak w s t wk tok amt dl crit =
     (if msg_value t \<noteq> 0 then Inl EmptyRevert
      else if amt = 0 then Inl InvalidAmount
      else if wk = 0 \<or> wk = msg_sender t then Inl InvalidWorker
      else if dl \<le> block_timestamp t then Inl InvalidDeadline
      else
        (case w (TokenTransferFrom tok (msg_sender t) amt) of
           Reverted \<Rightarrow> Inl CalleeReverted
         | Rejected \<Rightarrow> Inl TransferFailed
         | Accepted \<Rightarrow>
             and_then (add256 (escrowCounter s) 1) (\<lambda>counter'.
             let escrowId = keccak (block_timestamp t) (msg_sender t) (escrowCounter s) in
             Inr (escrowId,
                  s\<lparr> escrowCounter := counter',
                     escrows := (escrows s)(escrowId :=
                       \<lparr> client = msg_sender t, worker = wk, arbiter = protocolArbiter s,
                         token = tok, amount = amt, deadline = dl, criteriaHash = crit,
                         evidenceHash = 0, state = PENDING, createdAt = block_timestamp t,
                         submittedAt = 0 \<rparr>) \<rparr>,
                  [TokenTransferFrom tok (msg_sender t) amt]))))"

definition acceptEscrow_V1 :: "Escrow_V1 \<Rightarrow> tx \<Rightarrow> bytes32 \<Rightarrow> error + (Escrow_V1 \<times> call list)" where
  "acceptEscrow_V1 s t escrowId =
     (let e = escrows s escrowId in
      if msg_value t \<noteq> 0 then Inl EmptyRevert
      else if client e = 0 then Inl EscrowNotFound
      else if state e \<noteq> PENDING then Inl InvalidState
      else if msg_sender t \<noteq> worker e then Inl NotAuthorized
      else if block_timestamp t > deadline e then Inl DeadlinePassed
      else Inr (s\<lparr> escrows := (escrows s)(escrowId := e\<lparr> state := ACTIVE \<rparr>) \<rparr>, []))"

definition submitDeliverable ::
  "Escrow_V1 \<Rightarrow> tx \<Rightarrow> bytes32 \<Rightarrow> bytes32 \<Rightarrow> error + (Escrow_V1 \<times> call list)" where
  "submitDeliverable s t escrowId evidence =
     (let e = escrows s escrowId in
      if msg_value t \<noteq> 0 then Inl EmptyRevert
      else if client e = 0 then Inl EscrowNotFound
      else if state e \<noteq> ACTIVE then Inl InvalidState
      else if msg_sender t \<noteq> worker e then Inl NotAuthorized
      else Inr (s\<lparr> escrows := (escrows s)(escrowId :=
                     e\<lparr> evidenceHash := evidence, state := SUBMITTED,
                        submittedAt := block_timestamp t \<rparr>) \<rparr>, []))"

definition releasePayment ::
  "world \<Rightarrow> Escrow_V1 \<Rightarrow> tx \<Rightarrow> bytes32 \<Rightarrow> error + (Escrow_V1 \<times> call list)" where
  "releasePayment w s t escrowId =
     (let e = escrows s escrowId in
      if msg_value t \<noteq> 0 then Inl EmptyRevert
      else if client e = 0 then Inl EscrowNotFound
      else if state e \<noteq> SUBMITTED then Inl InvalidState
      else if msg_sender t \<noteq> client e then Inl NotAuthorized
      else
        and_then (transferFunds w (token e) (worker e) (amount e)) (\<lambda>c1.
        Inr (s\<lparr> escrows := (escrows s)(escrowId := e\<lparr> state := RESOLVED \<rparr>) \<rparr>, c1)))"

definition dispute_V1 :: "Escrow_V1 \<Rightarrow> tx \<Rightarrow> bytes32 \<Rightarrow> error + (Escrow_V1 \<times> call list)" where
  "dispute_V1 s t escrowId =
     (let e = escrows s escrowId in
      if msg_value t \<noteq> 0 then Inl EmptyRevert
      else if client e = 0 then Inl EscrowNotFound
      else if state e \<noteq> SUBMITTED then Inl InvalidState
      else if msg_sender t \<noteq> client e then Inl NotAuthorized
      else
        and_then (add256 (submittedAt e) REVIEW_TIMEOUT) (\<lambda>due.
        if block_timestamp t > due then Inl ReviewPeriodActive
        else Inr (s\<lparr> escrows := (escrows s)(escrowId := e\<lparr> state := DISPUTED \<rparr>) \<rparr>, [])))"

definition resolveDispute ::
  "world \<Rightarrow> Escrow_V1 \<Rightarrow> tx \<Rightarrow> bytes32 \<Rightarrow> uint256 \<Rightarrow> error + (Escrow_V1 \<times> call list)" where
  "resolveDispute w s t escrowId workerPct =
     (let e = escrows s escrowId in
      if msg_value t \<noteq> 0 then Inl EmptyRevert
      else if msg_sender t \<noteq> protocolArbiter s then Inl NotAuthorized
      else if client e = 0 then Inl EscrowNotFound
      else if state e \<noteq> DISPUTED then Inl InvalidState
      else if workerPct > 100 then Inl InvalidPercentage
      else
        and_then (mul256 (amount e) ARBITER_FEE_BPS) (\<lambda>m.
        let arbiterFee = m div BPS_DENOMINATOR in
        and_then (sub256 (amount e) arbiterFee) (\<lambda>remaining.
        and_then (mul256 remaining workerPct) (\<lambda>m2.
        let workerAmount = m2 div 100 in
        and_then (sub256 remaining workerAmount) (\<lambda>clientAmount.
        and_then (if arbiterFee > 0
                  then transferFunds w (token e) (arbiter e) arbiterFee else Inr []) (\<lambda>c1.
        and_then (if workerAmount > 0
                  then transferFunds w (token e) (worker e) workerAmount else Inr []) (\<lambda>c2.
        and_then (if clientAmount > 0
                  then transferFunds w (token e) (client e) clientAmount else Inr []) (\<lambda>c3.
        Inr (s\<lparr> escrows := (escrows s)(escrowId := e\<lparr> state := RESOLVED \<rparr>) \<rparr>,
             c1 @ c2 @ c3)))))))))"

definition cancelEscrow ::
  "world \<Rightarrow> Escrow_V1 \<Rightarrow> tx \<Rightarrow> bytes32 \<Rightarrow> error + (Escrow_V1 \<times> call list)" where
  "cancelEscrow w s t escrowId =
     (let e = escrows s escrowId in
      if msg_value t \<noteq> 0 then Inl EmptyRevert
      else if client e = 0 then Inl EscrowNotFound
      else if state e \<noteq> PENDING then Inl InvalidState
      else if msg_sender t \<noteq> client e then Inl NotAuthorized
      else
        and_then (transferFunds w (token e) (client e) (amount e)) (\<lambda>c1.
        Inr (s\<lparr> escrows := (escrows s)(escrowId := e\<lparr> state := CANCELLED \<rparr>) \<rparr>, c1)))"

definition claimExpiredEscrow ::
  "world \<Rightarrow> Escrow_V1 \<Rightarrow> tx \<Rightarrow> bytes32 \<Rightarrow> error + (Escrow_V1 \<times> call list)" where
  "claimExpiredEscrow w s t escrowId =
     (let e = escrows s escrowId in
      if msg_value t \<noteq> 0 then Inl EmptyRevert
      else if client e = 0 then Inl EscrowNotFound
      else if state e \<noteq> SUBMITTED then Inl InvalidState
      else if msg_sender t \<noteq> worker e then Inl NotAuthorized
      else
        and_then (add256 (submittedAt e) REVIEW_TIMEOUT) (\<lambda>due.
        if block_timestamp t \<le> due then Inl ReviewPeriodActive
        else
          and_then (transferFunds w (token e) (worker e) (amount e)) (\<lambda>c1.
          Inr (s\<lparr> escrows := (escrows s)(escrowId := e\<lparr> state := RESOLVED \<rparr>) \<rparr>, c1))))"

definition setProtocolArbiter :: "Escrow_V1 \<Rightarrow> tx \<Rightarrow> address \<Rightarrow> error + (Escrow_V1 \<times> call list)" where
  "setProtocolArbiter s t newArbiter =
     (if msg_value t \<noteq> 0 then Inl EmptyRevert
      else if msg_sender t \<noteq> owner s then Inl NotAuthorized
      else Inr (s\<lparr> protocolArbiter := newArbiter \<rparr>, []))"

definition transferOwnership :: "Escrow_V1 \<Rightarrow> tx \<Rightarrow> address \<Rightarrow> error + (Escrow_V1 \<times> call list)" where
  "transferOwnership s t newOwner =
     (if msg_value t \<noteq> 0 then Inl EmptyRevert
      else if msg_sender t \<noteq> owner s then Inl NotAuthorized
      else Inr (s\<lparr> owner := newOwner \<rparr>, []))"

text \<open>Concrete V1 inputs used further down.\<close>

definition demo_V1_escrow :: EscrowData where
  "demo_V1_escrow = \<lparr> client = 11, worker = 12, arbiter = 10, token = 77, amount = 1000000000,
     deadline = 5000, criteriaHash = 1, evidenceHash = 2, state = SUBMITTED, createdAt = 100,
     submittedAt = 1000 \<rparr>"

definition demo_V1 :: Escrow_V1 where
  "demo_V1 = \<lparr> escrows = (\<lambda>i. zero_EscrowData)(1 := demo_V1_escrow), escrowCounter = 1,
     protocolArbiter = 10, owner = 9 \<rparr>"

section \<open>AgentEscrow.sol\<close>

datatype EscrowState = Pending | Active | Submitted | Disputed | Resolved

datatype Outcome = NoOutcome | FullRelease | FullRefund | Partial

record Escrow =
  client :: address
  worker :: address
  token :: address
  amount :: uint256
  deadline :: uint256
  criteriaHash :: bytes32
  state :: EscrowState
  outcome :: Outcome
  completionPct :: nat
  createdAt :: uint256
  submittedAt :: uint256
  evidenceHash :: bytes32

text \<open>
  A Solidity mapping is total: a key never written reads as the all-zero struct, whose
  state is the first enum member. Of the external functions only \<^verbatim>\<open>createEscrow\<close> and
  \<^verbatim>\<open>dispute\<close> are \<^verbatim>\<open>payable\<close>; every other one starts by refusing a call with value.
\<close>

definition zero_Escrow :: Escrow where
  "zero_Escrow = \<lparr> client = 0, worker = 0, token = 0, amount = 0, deadline = 0,
     criteriaHash = 0, state = Pending, outcome = NoOutcome, completionPct = 0,
     createdAt = 0, submittedAt = 0, evidenceHash = 0 \<rparr>"

record AgentEscrow =
  escrows :: "bytes32 \<Rightarrow> Escrow"
  arbitrator :: address
  pendingArbitrator :: address
  protocolFeeBps :: uint256
  disputeFeeBps :: uint256
  clientReviewPeriod :: uint256
  arbitrationTimeout :: uint256
  minEscrowAmount :: uint256
  maxEscrowAmount :: uint256
  escrowCount :: uint256

definition constructor :: "address \<Rightarrow> AgentEscrow" where
  "constructor a = \<lparr> escrows = (\<lambda>i. zero_Escrow), arbitrator = a, pendingArbitrator = 0,
     protocolFeeBps = 100, disputeFeeBps = 100,
     clientReviewPeriod = 4 * 3600, arbitrationTimeout = 8 * 3600,
     minEscrowAmount = 10000000, maxEscrowAmount = 5000000000, escrowCount = 0 \<rparr>"

text \<open>
  \<^verbatim>\<open>_transfer\<close>: nothing for a zero amount; a native payment reverts \<^verbatim>\<open>TransferFailed\<close>
  when the call does not succeed; the boolean a token returns is dropped.
\<close>

definition internal_transfer :: "world \<Rightarrow> address \<Rightarrow> address \<Rightarrow> uint256 \<Rightarrow> error + call list" where
  "internal_transfer w tok recipient n =
     (if n = 0 then Inr []
      else if tok = 0 then
        (if w (NativeSend recipient n) = Accepted then Inr [NativeSend recipient n]
         else Inl TransferFailed)
      else
        (case w (TokenTransfer tok recipient n) of
           Accepted \<Rightarrow> Inr [TokenTransfer tok recipient n]
         | Rejected \<Rightarrow> Inr []
         | Reverted \<Rightarrow> Inl CalleeReverted))"

text \<open>
  \<^verbatim>\<open>IERC20(token).transferFrom(msg.sender, address(this), amount)\<close> as \<^verbatim>\<open>createEscrow\<close>
  and \<^verbatim>\<open>dispute\<close> write it, the returned boolean dropped.
\<close>

definition pull_token :: "world \<Rightarrow> address \<Rightarrow> address \<Rightarrow> uint256 \<Rightarrow> error + call list" where
  "pull_token w tok payer n =
     (case w (TokenTransferFrom tok payer n) of
        Accepted \<Rightarrow> Inr [TokenTransferFrom tok payer n]
      | Rejected \<Rightarrow> Inr []
      | Reverted \<Rightarrow> Inl CalleeReverted)"

text \<open>
  \<^verbatim>\<open>createEscrow\<close>. The identifier is
  \<^verbatim>\<open>keccak256(abi.encodePacked(msg.sender, escrowCount++, block.timestamp))\<close>; the hash
  function is the parameter \<open>keccak\<close>.
\<close>

definition createEscrow ::
  "(address \<Rightarrow> uint256 \<Rightarrow> uint256 \<Rightarrow> bytes32) \<Rightarrow> world \<Rightarrow> AgentEscrow \<Rightarrow> tx \<Rightarrow>
     address \<Rightarrow> uint256 \<Rightarrow> uint256 \<Rightarrow> bytes32 \<Rightarrow> error + (bytes32 \<times> AgentEscrow \<times> call list)" where
  "createEscrow keccak w s t tok amt dl crit =
     (if amt < minEscrowAmount s \<or> amt > maxEscrowAmount s then Inl InvalidAmount
      else if dl \<le> block_timestamp t then Inl DeadlinePassed
      else
        and_then (add256 (escrowCount s) 1) (\<lambda>count'.
        let escrowId = keccak (msg_sender t) (escrowCount s) (block_timestamp t) in
        and_then (if tok = 0
                  then (if msg_value t \<noteq> amt then Inl InvalidAmount else Inr [])
                  else pull_token w tok (msg_sender t) amt) (\<lambda>pulled.
        Inr (escrowId,
             s\<lparr> escrowCount := count',
                escrows := (escrows s)(escrowId :=
                  \<lparr> client = msg_sender t, worker = 0, token = tok, amount = amt,
                    deadline = dl, criteriaHash = crit, state = Pending,
                    outcome = NoOutcome, completionPct = 0,
                    createdAt = block_timestamp t, submittedAt = 0, evidenceHash = 0 \<rparr>) \<rparr>,
             pulled))))"

definition acceptEscrow :: "AgentEscrow \<Rightarrow> tx \<Rightarrow> bytes32 \<Rightarrow> error + (AgentEscrow \<times> call list)" where
  "acceptEscrow s t escrowId =
     (let e = escrows s escrowId in
      if msg_value t \<noteq> 0 then Inl EmptyRevert
      else if state e \<noteq> Pending then Inl InvalidState
      else if block_timestamp t \<ge> deadline e then Inl DeadlinePassed
      else Inr (s\<lparr> escrows := (escrows s)(escrowId :=
                     e\<lparr> worker := msg_sender t, state := Active \<rparr>) \<rparr>, []))"

definition submitWork ::
  "AgentEscrow \<Rightarrow> tx \<Rightarrow> bytes32 \<Rightarrow> bytes32 \<Rightarrow> error + (AgentEscrow \<times> call list)" where
  "submitWork s t escrowId evidence =
     (let e = escrows s escrowId in
      if msg_value t \<noteq> 0 then Inl EmptyRevert
      else if msg_sender t \<noteq> worker e then Inl OnlyWorker
      else if state e \<noteq> Active then Inl InvalidState
      else Inr (s\<lparr> escrows := (escrows s)(escrowId :=
                     e\<lparr> evidenceHash := evidence, submittedAt := block_timestamp t,
                        state := Submitted \<rparr>) \<rparr>, []))"

text \<open>
  The part \<^verbatim>\<open>release\<close> and \<^verbatim>\<open>autoRelease\<close> share word for word: fee, worker amount,
  the three field writes, the two transfers.
\<close>

definition pay_release :: "world \<Rightarrow> AgentEscrow \<Rightarrow> bytes32 \<Rightarrow> error + (AgentEscrow \<times> call list)" where
  "pay_release w s escrowId =
     (let e = escrows s escrowId in
      and_then (mul256 (amount e) (protocolFeeBps s)) (\<lambda>m.
      let protocolFee = m div 10000 in
      and_then (sub256 (amount e) protocolFee) (\<lambda>workerAmount.
      let s' = s\<lparr> escrows := (escrows s)(escrowId :=
                    e\<lparr> state := Resolved, outcome := FullRelease, completionPct := 100 \<rparr>) \<rparr> in
      and_then (internal_transfer w (token e) (worker e) workerAmount) (\<lambda>c1.
      and_then (internal_transfer w (token e) (arbitrator s) protocolFee) (\<lambda>c2.
      Inr (s', c1 @ c2))))))"

definition release :: "world \<Rightarrow> AgentEscrow \<Rightarrow> tx \<Rightarrow> bytes32 \<Rightarrow> error + (AgentEscrow \<times> call list)" where
  "release w s t escrowId =
     (let e = escrows s escrowId in
      if msg_value t \<noteq> 0 then Inl EmptyRevert
      else if msg_sender t \<noteq> client e then Inl OnlyClient
      else if state e \<noteq> Submitted then Inl InvalidState
      else pay_release w s escrowId)"

definition dispute :: "world \<Rightarrow> AgentEscrow \<Rightarrow> tx \<Rightarrow> bytes32 \<Rightarrow> error + (AgentEscrow \<times> call list)" where
  "dispute w s t escrowId =
     (let e = escrows s escrowId in
      if msg_sender t \<noteq> client e then Inl OnlyClient
      else if state e \<noteq> Submitted then Inl InvalidState
      else
        and_then (mul256 (amount e) (disputeFeeBps s)) (\<lambda>m.
        let disputeFee = m div 10000 in
        and_then (if token e = 0
                  then (if msg_value t \<noteq> disputeFee then Inl InvalidAmount else Inr [])
                  else pull_token w (token e) (msg_sender t) disputeFee) (\<lambda>pulled.
        Inr (s\<lparr> escrows := (escrows s)(escrowId := e\<lparr> state := Disputed \<rparr>) \<rparr>, pulled))))"

definition autoRelease :: "world \<Rightarrow> AgentEscrow \<Rightarrow> tx \<Rightarrow> bytes32 \<Rightarrow> error + (AgentEscrow \<times> call list)" where
  "autoRelease w s t escrowId =
     (let e = escrows s escrowId in
      if msg_value t \<noteq> 0 then Inl EmptyRevert
      else if state e \<noteq> Submitted then Inl InvalidState
      else
        and_then (add256 (submittedAt e) (clientReviewPeriod s)) (\<lambda>due.
        if block_timestamp t < due then Inl ReviewPeriodActive
        else pay_release w s escrowId))"

text \<open>
  The \<^verbatim>\<open>uint8 completionPct\<close> of \<^verbatim>\<open>resolve\<close> is a natural number here: the word of
  the call data. A word above 255 does not decode, and the call reverts without data as a
  call with value does, before \<^verbatim>\<open>onlyArbitrator\<close>.
\<close>

definition resolve ::
  "world \<Rightarrow> AgentEscrow \<Rightarrow> tx \<Rightarrow> bytes32 \<Rightarrow> nat \<Rightarrow> error + (AgentEscrow \<times> call list)" where
  "resolve w s t escrowId pct =
     (let e = escrows s escrowId in
      if msg_value t \<noteq> 0 then Inl EmptyRevert
      else if 255 < pct then Inl EmptyRevert
      else if msg_sender t \<noteq> arbitrator s then Inl OnlyArbitrator
      else if state e \<noteq> Disputed then Inl InvalidState
      else if pct > 100 then Inl InvalidAmount
      else
        and_then (mul256 (amount e) (protocolFeeBps s)) (\<lambda>m.
        let protocolFee = m div 10000 in
        and_then (sub256 (amount e) protocolFee) (\<lambda>distributable.
        and_then (mul256 distributable pct) (\<lambda>m2.
        let workerAmount = m2 div 100 in
        and_then (sub256 distributable workerAmount) (\<lambda>clientRefund.
        let oc = (if pct = 100 then FullRelease else if pct = 0 then FullRefund else Partial);
            s' = s\<lparr> escrows := (escrows s)(escrowId :=
                    e\<lparr> state := Resolved, outcome := oc, completionPct := pct \<rparr>) \<rparr> in
        and_then (mul256 (amount e) (disputeFeeBps s)) (\<lambda>m3.
        let disputeFee = m3 div 10000 in
        and_then (if workerAmount > 0
                  then internal_transfer w (token e) (worker e) workerAmount else Inr []) (\<lambda>c1.
        and_then (if clientRefund > 0
                  then internal_transfer w (token e) (client e) clientRefund else Inr []) (\<lambda>c2.
        and_then (if pct \<ge> 50
                  then internal_transfer w (token e) (worker e) disputeFee
                  else internal_transfer w (token e) (client e) disputeFee) (\<lambda>c3.
        and_then (internal_transfer w (token e) (arbitrator s) protocolFee) (\<lambda>c4.
        Inr (s', c1 @ c2 @ c3 @ c4)))))))))))"

definition initiateArbitratorTransfer ::
  "AgentEscrow \<Rightarrow> tx \<Rightarrow> address \<Rightarrow> error + (AgentEscrow \<times> call list)" where
  "initiateArbitratorTransfer s t newArbitrator =
     (if msg_value t \<noteq> 0 then Inl EmptyRevert
      else if msg_sender t \<noteq> arbitrator s then Inl OnlyArbitrator
      else Inr (s\<lparr> pendingArbitrator := newArbitrator \<rparr>, []))"

definition acceptArbitratorTransfer :: "AgentEscrow \<Rightarrow> tx \<Rightarrow> error + (AgentEscrow \<times> call list)" where
  "acceptArbitratorTransfer s t =
     (if msg_value t \<noteq> 0 then Inl EmptyRevert
      else if msg_sender t \<noteq> pendingArbitrator s then Inl OnlyArbitrator
      else Inr (s\<lparr> arbitrator := pendingArbitrator s, pendingArbitrator := 0 \<rparr>, []))"

definition setFees :: "AgentEscrow \<Rightarrow> tx \<Rightarrow> uint256 \<Rightarrow> uint256 \<Rightarrow> error + (AgentEscrow \<times> call list)" where
  "setFees s t p d =
     (if msg_value t \<noteq> 0 then Inl EmptyRevert
      else if msg_sender t \<noteq> arbitrator s then Inl OnlyArbitrator
      else Inr (s\<lparr> protocolFeeBps := p, disputeFeeBps := d \<rparr>, []))"

definition setLimits :: "AgentEscrow \<Rightarrow> tx \<Rightarrow> uint256 \<Rightarrow> uint256 \<Rightarrow> error + (AgentEscrow \<times> call list)" where
  "setLimits s t lo hi =
     (if msg_value t \<noteq> 0 then Inl EmptyRevert
      else if msg_sender t \<noteq> arbitrator s then Inl OnlyArbitrator
      else Inr (s\<lparr> minEscrowAmount := lo, maxEscrowAmount := hi \<rparr>, []))"

definition setTimeouts :: "AgentEscrow \<Rightarrow> tx \<Rightarrow> uint256 \<Rightarrow> uint256 \<Rightarrow> error + (AgentEscrow \<times> call list)" where
  "setTimeouts s t rp at =
     (if msg_value t \<noteq> 0 then Inl EmptyRevert
      else if msg_sender t \<noteq> arbitrator s then Inl OnlyArbitrator
      else Inr (s\<lparr> clientReviewPeriod := rp, arbitrationTimeout := at \<rparr>, []))"

subsection \<open>The external interface as one function\<close>

text \<open>
  Every state-changing external function of \<^verbatim>\<open>AgentEscrow.sol\<close> is one constructor of
  \<open>action\<close>; \<open>dispatch\<close> runs the function the transaction names. The view function
  \<^verbatim>\<open>getEscrow\<close> and the public getters change nothing and are left out.
\<close>

datatype action =
    CreateEscrow address uint256 uint256 bytes32
  | AcceptEscrow bytes32
  | SubmitWork bytes32 bytes32
  | Release bytes32
  | Dispute bytes32
  | AutoRelease bytes32
  | Resolve bytes32 nat
  | InitiateArbitratorTransfer address
  | AcceptArbitratorTransfer
  | SetFees uint256 uint256
  | SetLimits uint256 uint256
  | SetTimeouts uint256 uint256

fun dispatch ::
  "(address \<Rightarrow> uint256 \<Rightarrow> uint256 \<Rightarrow> bytes32) \<Rightarrow> world \<Rightarrow> AgentEscrow \<Rightarrow> tx \<Rightarrow> action \<Rightarrow>
     error + (AgentEscrow \<times> call list)" where
  "dispatch keccak w s t (CreateEscrow tok amt dl crit) =
     and_then (createEscrow keccak w s t tok amt dl crit) (\<lambda>(escrowId, s', cs). Inr (s', cs))"
| "dispatch keccak w s t (AcceptEscrow i) = acceptEscrow s t i"
| "dispatch keccak w s t (SubmitWork i evidence) = submitWork s t i evidence"
| "dispatch keccak w s t (Release i) = release w s t i"
| "dispatch keccak w s t (Dispute i) = dispute w s t i"
| "dispatch keccak w s t (AutoRelease i) = autoRelease w s t i"
| "dispatch keccak w s t (Resolve i pct) = resolve w s t i pct"
| "dispatch keccak w s t (InitiateArbitratorTransfer a) = initiateArbitratorTransfer s t a"
| "dispatch keccak w s t AcceptArbitratorTransfer = acceptArbitratorTransfer s t"
| "dispatch keccak w s t (SetFees p d) = setFees s t p d"
| "dispatch keccak w s t (SetLimits lo hi) = setLimits s t lo hi"
| "dispatch keccak w s t (SetTimeouts rp at) = setTimeouts s t rp at"




text \<open>What is left of the lifecycles from a given state on.\<close>

fun remaining :: "EscrowState \<Rightarrow> EscrowState list list" where
  "remaining Pending = [[Pending, Active, Submitted, Disputed, Resolved],
                        [Pending, Active, Submitted, Resolved]]"
| "remaining Active = [[Active, Submitted, Disputed, Resolved], [Active, Submitted, Resolved]]"
| "remaining Submitted = [[Submitted, Disputed, Resolved], [Submitted, Resolved]]"
| "remaining Disputed = [[Disputed, Resolved]]"
| "remaining Resolved = [[Resolved]]"


text \<open>
  The external call \<^verbatim>\<open>_transfer\<close> makes for a payment, when there is one.
\<close>

definition payment :: "address \<Rightarrow> address \<Rightarrow> uint256 \<Rightarrow> call list" where
  "payment tok recipient n =
     (if n = 0 then []
      else [if tok = 0 then NativeSend recipient n else TokenTransfer tok recipient n])"

subsection \<open>Concrete inputs\<close>

text \<open>
  A contract deployed with arbitrator \<open>10\<close> and default parameters, holding one escrow,
  number \<open>1\<close>: client \<open>11\<close>, worker \<open>12\<close>, 1000 USDC (six decimals) of token \<open>77\<close>,
  submitted at time \<open>1000\<close>. The review period of 4 hours ends at \<open>15400\<close>.
\<close>

definition demo_escrow :: Escrow where
  "demo_escrow = \<lparr> client = 11, worker = 12, token = 77, amount = 1000000000, deadline = 5000,
     criteriaHash = 1, state = Submitted, outcome = NoOutcome, completionPct = 0,
     createdAt = 100, submittedAt = 1000, evidenceHash = 2 \<rparr>"

definition demo_with :: "Escrow \<Rightarrow> AgentEscrow" where
  "demo_with e = (constructor 10)\<lparr> escrows := (\<lambda>i. zero_Escrow)(1 := e), escrowCount := 1 \<rparr>"

definition demo :: AgentEscrow where
  "demo = demo_with demo_escrow"

definition demo_pending :: AgentEscrow where
  "demo_pending = demo_with (demo_escrow\<lparr> worker := 0, state := Pending, submittedAt := 0,
     evidenceHash := 0 \<rparr>)"

definition demo_disputed :: AgentEscrow where
  "demo_disputed = demo_with (demo_escrow\<lparr> state := Disputed \<rparr>)"

definition demo_released :: AgentEscrow where
  "demo_released = demo_with (demo_escrow\<lparr> state := Resolved, outcome := FullRelease,
     completionPct := 100 \<rparr>)"

definition by_client :: "uint256 \<Rightarrow> tx" where
  "by_client now = \<lparr> msg_sender = 11, msg_value = 0, block_timestamp = now \<rparr>"

definition by_worker :: "uint256 \<Rightarrow> tx" where
  "by_worker now = \<lparr> msg_sender = 12, msg_value = 0, block_timestamp = now \<rparr>"

definition by_arbitrator :: "uint256 \<Rightarrow> tx" where
  "by_arbitrator now = \<lparr> msg_sender = 10, msg_value = 0, block_timestamp = now \<rparr>"

definition by_stranger :: "uint256 \<Rightarrow> tx" where
  "by_stranger now = \<lparr> msg_sender = 13, msg_value = 0, block_timestamp = now \<rparr>"

text \<open>
  A world that accepts every call, one where the token refuses every transfer, one
  where every callee reverts, and a toy hash that numbers the escrows.
\<close>

definition accepting :: world where
  "accepting c = Accepted"

definition refusing :: world where
  "refusing c = Rejected"

definition reverting :: world where
  "reverting c = Reverted"

definition demo_keccak :: "address \<Rightarrow> uint256 \<Rightarrow> uint256 \<Rightarrow> bytes32" where
  "demo_keccak a n ts = n + 1"

section \<open>Basic facts\<close>

lemmas demo_defs = demo_def demo_with_def demo_escrow_def demo_pending_def demo_disputed_def
  demo_released_def constructor_def zero_Escrow_def by_client_def by_worker_def
  by_arbitrator_def by_stranger_def accepting_def refusing_def reverting_def demo_keccak_def

lemmas arith_defs = mul256_def sub256_def add256_def MAX_UINT256_def

lemma and_then_Inr_iff: "and_then m f = Inr y \<longleftrightarrow> (\<exists>x. m = Inr x \<and> f x = Inr y)"
  by (cases m) auto

lemma and_then_Inl_iff:
  "and_then m f = Inl err \<longleftrightarrow> m = Inl err \<or> (\<exists>x. m = Inr x \<and> f x = Inl err)"
  by (cases m) auto

lemma mul256_Inr_iff: "mul256 a b = Inr m \<longleftrightarrow> m = a * b \<and> a * b \<le> MAX_UINT256"
  by (auto simp: mul256_def)

lemma sub256_Inr_iff: "sub256 a b = Inr m \<longleftrightarrow> m = a - b \<and> b \<le> a"
  by (auto simp: sub256_def)

lemma add256_Inr_iff: "add256 a b = Inr m \<longleftrightarrow> m = a + b \<and> a + b \<le> MAX_UINT256"
  by (auto simp: add256_def)

lemma internal_transfer_accepted:
  "\<forall>c. w c = Accepted \<Longrightarrow> internal_transfer w tok r n = Inr (payment tok r n)"
  by (simp add: internal_transfer_def payment_def)


lemma pull_token_accepted:
  "\<forall>c. w c = Accepted \<Longrightarrow> pull_token w tok p n = Inr [TokenTransferFrom tok p n]"
  by (simp add: pull_token_def)

lemma guarded_transfer:
  "(if 0 < n then internal_transfer w tok r n else Inr []) = internal_transfer w tok r n"
  by (simp add: internal_transfer_def)

lemma total_moved_payment: "total_moved (payment tok r n) = n"
  by (simp add: payment_def total_moved_def)

lemma total_moved_append: "total_moved (xs @ ys) = total_moved xs + total_moved ys"
  by (simp add: total_moved_def)



subsection \<open>What a successful \<^verbatim>\<open>dispute\<close> and \<^verbatim>\<open>resolve\<close> have done\<close>

lemma dispute_Inr:
  assumes ok: "dispute w s t i = Inr (s1, pulled)"
  defines "e \<equiv> escrows s i"
  defines "df \<equiv> amount e * disputeFeeBps s div 10000"
  shows "msg_sender t = client e \<and> state e = Submitted
       \<and> s1 = s\<lparr> escrows := (escrows s)(i := e\<lparr> state := Disputed \<rparr>) \<rparr>
       \<and> (if token e = 0 then msg_value t = df \<and> pulled = []
           else pull_token w (token e) (msg_sender t) df = Inr pulled)"
  using ok unfolding dispute_def Let_def e_def df_def
  by (auto simp: and_then_Inr_iff mul256_Inr_iff split: if_splits)

lemma resolve_accepted:
  assumes ok: "resolve w s t i pct = Inr (s', cs)" and acc: "\<forall>c. w c = Accepted"
  defines "e \<equiv> escrows s i"
  defines "pf \<equiv> amount e * protocolFeeBps s div 10000"
  defines "fa \<equiv> (amount e - pf) * pct div 100"
  defines "df \<equiv> amount e * disputeFeeBps s div 10000"
  shows "msg_sender t = arbitrator s \<and> state e = Disputed \<and> pct \<le> 100 \<and> pf \<le> amount e
       \<and> fa \<le> amount e - pf
       \<and> cs = payment (token e) (worker e) fa @ payment (token e) (client e) (amount e - pf - fa)
            @ payment (token e) (if 50 \<le> pct then worker e else client e) df
            @ payment (token e) (arbitrator s) pf
       \<and> s' = s\<lparr> escrows := (escrows s)(i := e\<lparr> state := Resolved,
                 outcome := (if pct = 100 then FullRelease else if pct = 0 then FullRefund
                             else Partial),
                 completionPct := pct \<rparr>) \<rparr>"
  using ok unfolding resolve_def Let_def guarded_transfer e_def pf_def fa_def df_def
  by (auto simp: and_then_Inr_iff mul256_Inr_iff sub256_Inr_iff
      internal_transfer_accepted[OF acc] split: if_splits)

section \<open>The payouts of a dispute\<close>

text \<open>
  Conservation when every external call is accepted. A dispute has been raised and the
  arbitrator resolves it, with no change of the fee rates in between: the percentage is
  at most 100; the fulfiller's amount, the requester's amount and the protocol fee add up
  to the escrowed amount exactly, under the flooring divisions of the code; the dispute
  fee collected when the dispute was raised is the dispute fee paid out, in one payment,
  to the worker or to the client; and the payments of \<^verbatim>\<open>resolve\<close> add up to the amount
  plus the dispute fee collected.
\<close>

lemma conservation_when_accepted:
  assumes d: "dispute w s t1 i = Inr (s1, pulled)"
    and r: "resolve w s1 t2 i pct = Inr (s2, cs)"
    and acc: "\<forall>c. w c = Accepted"
  defines "e \<equiv> escrows s i"
  defines "protocolFee \<equiv> amount e * protocolFeeBps s div 10000"
  defines "fulfillerAmount \<equiv> (amount e - protocolFee) * pct div 100"
  defines "requesterAmount \<equiv> amount e - protocolFee - fulfillerAmount"
  defines "disputeFee \<equiv> amount e * disputeFeeBps s div 10000"
  defines "collected \<equiv> (if token e = 0 then msg_value t1 else total_moved pulled)"
  shows "pct \<le> 100
       \<and> fulfillerAmount + requesterAmount + protocolFee = amount e
       \<and> collected = disputeFee
       \<and> cs = payment (token e) (worker e) fulfillerAmount
            @ payment (token e) (client e) requesterAmount
            @ payment (token e) (if 50 \<le> pct then worker e else client e) disputeFee
            @ payment (token e) (arbitrator s) protocolFee
       \<and> total_moved cs = amount e + collected"
proof -
  note D = dispute_Inr[OF d]
  have s1: "s1 = s\<lparr> escrows := (escrows s)(i := (escrows s i)\<lparr> state := Disputed \<rparr>) \<rparr>"
    using D by simp
  have e1: "escrows s1 i = e\<lparr> state := Disputed \<rparr>"
    by (simp add: s1 e_def)
  have cfg: "protocolFeeBps s1 = protocolFeeBps s" "disputeFeeBps s1 = disputeFeeBps s"
    "arbitrator s1 = arbitrator s"
    by (simp_all add: s1)
  note R = resolve_accepted[OF r acc, unfolded e1 cfg, simplified]
  have coll: "collected = disputeFee"
    using D acc
    by (auto simp: collected_def disputeFee_def e_def pull_token_accepted total_moved_def
        split: if_splits)
  have le: "protocolFee \<le> amount e" "fulfillerAmount \<le> amount e - protocolFee"
    using R by (simp_all add: protocolFee_def fulfillerAmount_def)
  have cs: "cs = payment (token e) (worker e) fulfillerAmount
            @ payment (token e) (client e) requesterAmount
            @ payment (token e) (if 50 \<le> pct then worker e else client e) disputeFee
            @ payment (token e) (arbitrator s) protocolFee"
    using R by (simp add: protocolFee_def fulfillerAmount_def requesterAmount_def disputeFee_def)
  have tot: "total_moved cs = amount e + disputeFee"
    using le by (simp add: cs total_moved_append total_moved_payment requesterAmount_def)
  have pct: "pct \<le> 100"
    using R by simp
  have total: "fulfillerAmount + requesterAmount + protocolFee = amount e"
    using le by (simp add: requesterAmount_def)
  have tot': "total_moved cs = amount e + collected"
    using tot coll by simp
  from pct total coll cs tot' show ?thesis
    by blast
qed

lemma conservation_when_accepted_example:
  "dispute (\<lambda>c. Accepted) demo (by_client 2000) 1
     = Inr (demo_disputed, [TokenTransferFrom 77 11 10000000])
   \<and> (\<exists>s2. resolve (\<lambda>c. Accepted) demo_disputed (by_arbitrator 3000) 1 70
     = Inr (s2, [TokenTransfer 77 12 693000000, TokenTransfer 77 11 297000000,
                 TokenTransfer 77 12 10000000, TokenTransfer 77 10 10000000]))
   \<and> total_moved [TokenTransfer 77 12 693000000, TokenTransfer 77 11 297000000,
                 TokenTransfer 77 12 10000000, TokenTransfer 77 10 10000000]
     = amount (escrows demo 1) + total_moved [TokenTransferFrom 77 11 10000000]"
proof -
  have d: "dispute (\<lambda>c. Accepted) demo (by_client 2000) 1
     = Inr (demo_disputed, [TokenTransferFrom 77 11 10000000])"
    by (simp add: dispute_def pull_token_def demo_defs arith_defs)
  obtain s2 where r: "resolve (\<lambda>c. Accepted) demo_disputed (by_arbitrator 3000) 1 70
     = Inr (s2, [TokenTransfer 77 12 693000000, TokenTransfer 77 11 297000000,
                 TokenTransfer 77 12 10000000, TokenTransfer 77 10 10000000])"
    by (simp add: resolve_def internal_transfer_def demo_defs arith_defs)
  have a: "\<forall>c. (\<lambda>c. Accepted) c = Accepted"
    by simp
  have tok: "token (escrows demo 1) \<noteq> 0"
    by (simp add: demo_defs)
  from conservation_when_accepted[OF d r a]
  have "total_moved [TokenTransfer 77 12 693000000, TokenTransfer 77 11 297000000,
                 TokenTransfer 77 12 10000000, TokenTransfer 77 10 10000000]
     = amount (escrows demo 1) + (if token (escrows demo 1) = 0 then msg_value (by_client 2000)
          else total_moved [TokenTransferFrom 77 11 10000000])"
    by blast
  with tok d r show ?thesis
    by auto
qed

text \<open>
  C1. The failing input. The token of escrow 1 answers \<^verbatim>\<open>false\<close> to the
  \<^verbatim>\<open>transferFrom\<close> of \<^verbatim>\<open>dispute\<close> and moves nothing (\<^verbatim>\<open>MaliciousToken\<close> with
  \<^verbatim>\<open>shouldFail\<close> set): the dispute is raised and no fee is collected. The token then
  transfers again and the arbitrator resolves at 70: the payments of \<^verbatim>\<open>resolve\<close> are
  693000000 and the fee of 10000000 to the worker, 297000000 to the client and 10000000
  to the arbitrator, 1010000000 in all, against an amount of 1000000000 and a collected
  fee of 0.
\<close>

theorem uncollected_dispute_fee_paid_out:
  "dispute refusing demo (by_client 2000) 1 = Inr (demo_disputed, [])
   \<and> resolve accepting demo_disputed (by_arbitrator 3000) 1 70
       = Inr (demo_with (demo_escrow\<lparr> state := Resolved, outcome := Partial,
                completionPct := 70 \<rparr>),
              [TokenTransfer 77 12 693000000, TokenTransfer 77 11 297000000,
               TokenTransfer 77 12 10000000, TokenTransfer 77 10 10000000])
   \<and> total_moved [TokenTransfer 77 12 693000000, TokenTransfer 77 11 297000000,
               TokenTransfer 77 12 10000000, TokenTransfer 77 10 10000000] = 1010000000
   \<and> amount (escrows demo 1) + total_moved [] = 1000000000"
  by (simp add: dispute_def resolve_def pull_token_def internal_transfer_def total_moved_def
      demo_defs arith_defs)



subsection \<open>The payout of \<^verbatim>\<open>release\<close> and \<^verbatim>\<open>autoRelease\<close>\<close>

lemma fee_le_amount:
  fixes a bps :: nat
  assumes "bps \<le> 10000"
  shows "a * bps div 10000 \<le> a"
proof -
  have "a * bps \<le> a * 10000"
    using assms by simp
  then have "a * bps div 10000 \<le> a * 10000 div 10000"
    by (rule div_le_mono)
  then show ?thesis
    by simp
qed






subsection \<open>Where a payout can panic\<close>

lemma pct_le:
  fixes x pct :: nat
  assumes "pct \<le> 100"
  shows "x * pct div 100 \<le> x"
proof -
  have "x * pct \<le> x * 100" using assms by simp
  then have "x * pct div 100 \<le> x * 100 div 100" by (rule div_le_mono)
  then show ?thesis by simp
qed

lemma internal_transfer_not_Panic: "internal_transfer w tok r n \<noteq> Inl Panic"
  by (simp add: internal_transfer_def split: reply.splits)

lemma and_then_Panic_last:
  "(\<And>x. f x \<noteq> Inl Panic) \<Longrightarrow> and_then m f = Inl Panic \<longleftrightarrow> m = Inl Panic"
  by (cases m) auto

lemma resolve_Panic:
  assumes bps: "protocolFeeBps s \<le> 10000"
    and p: "resolve w s t i pct = Inl Panic"
  defines "e \<equiv> escrows s i"
  shows "MAX_UINT256 < amount e * protocolFeeBps s
       \<or> MAX_UINT256 < (amount e - amount e * protocolFeeBps s div 10000) * pct
       \<or> MAX_UINT256 < amount e * disputeFeeBps s"
proof (rule ccontr)
  assume n: "\<not> ?thesis"
  have le: "amount e * protocolFeeBps s div 10000 \<le> amount e"
    using fee_le_amount[OF bps] .
  have st: "msg_sender t = arbitrator s" "state e = Disputed" "pct \<le> 100" "msg_value t = 0"
    using p by (auto simp: resolve_def Let_def e_def split: if_splits)
  have pc: "(amount e - amount e * protocolFeeBps s div 10000) * pct div 100
     \<le> amount e - amount e * protocolFeeBps s div 10000"
    using pct_le[OF st(3)] .
  have m1: "mul256 (amount e) (protocolFeeBps s) = Inr (amount e * protocolFeeBps s)"
    and m2: "mul256 (amount e - amount e * protocolFeeBps s div 10000) pct
       = Inr ((amount e - amount e * protocolFeeBps s div 10000) * pct)"
    and m3: "mul256 (amount e) (disputeFeeBps s) = Inr (amount e * disputeFeeBps s)"
    using n by (simp_all add: mul256_def not_less)
  have s1: "sub256 (amount e) (amount e * protocolFeeBps s div 10000)
       = Inr (amount e - amount e * protocolFeeBps s div 10000)"
    and s2: "sub256 (amount e - amount e * protocolFeeBps s div 10000)
         ((amount e - amount e * protocolFeeBps s div 10000) * pct div 100)
       = Inr (amount e - amount e * protocolFeeBps s div 10000
              - (amount e - amount e * protocolFeeBps s div 10000) * pct div 100)"
    using le pc by (simp_all add: sub256_def)
  have "resolve w s t i pct \<noteq> Inl Panic"
    using st unfolding resolve_def Let_def guarded_transfer e_def[symmetric]
    by (simp add: m1 m2 m3 s1 s2 and_then_Inl_iff internal_transfer_not_Panic)
  with p show False
    by simp
qed

lemma pay_release_Panic:
  assumes bps: "protocolFeeBps s \<le> 10000"
    and p: "pay_release w s i = Inl Panic"
  shows "MAX_UINT256 < amount (escrows s i) * protocolFeeBps s"
proof (rule ccontr)
  assume n: "\<not> ?thesis"
  have m1: "mul256 (amount (escrows s i)) (protocolFeeBps s)
      = Inr (amount (escrows s i) * protocolFeeBps s)"
    using n by (simp add: mul256_def not_less)
  have s1: "sub256 (amount (escrows s i)) (amount (escrows s i) * protocolFeeBps s div 10000)
      = Inr (amount (escrows s i) - amount (escrows s i) * protocolFeeBps s div 10000)"
    using fee_le_amount[OF bps, of "amount (escrows s i)"] by (simp add: sub256_def)
  have "pay_release w s i \<noteq> Inl Panic"
    unfolding pay_release_def Let_def
    by (simp add: m1 s1 and_then_Inl_iff internal_transfer_not_Panic)
  with p show False
    by simp
qed

lemma pay_release_underflow:
  assumes "amount (escrows s i) < amount (escrows s i) * protocolFeeBps s div 10000"
    and "amount (escrows s i) * protocolFeeBps s \<le> MAX_UINT256"
  shows "pay_release w s i = Inl Panic"
  using assms by (simp add: pay_release_def Let_def mul256_def sub256_def)

lemma release_Panic:
  assumes "protocolFeeBps s \<le> 10000" and "release w s t i = Inl Panic"
  shows "MAX_UINT256 < amount (escrows s i) * protocolFeeBps s"
  using assms pay_release_Panic[of s w i]
  by (simp add: release_def Let_def split: if_splits)

lemma autoRelease_Panic:
  assumes "protocolFeeBps s \<le> 10000" and "autoRelease w s t i = Inl Panic"
  shows "MAX_UINT256 < amount (escrows s i) * protocolFeeBps s
       \<or> MAX_UINT256 < submittedAt (escrows s i) + clientReviewPeriod s"
  using assms pay_release_Panic[of s w i]
  by (auto simp: autoRelease_def Let_def add256_def split: if_splits)

text \<open>
  C10. The fee rate and the payouts. With a protocol fee rate of at most 10000 basis
  points the fee is at most the amount, and \<^verbatim>\<open>release\<close>, \<^verbatim>\<open>autoRelease\<close> and
  \<^verbatim>\<open>resolve\<close> panic only where a sum or product leaves \<^verbatim>\<open>uint256\<close>, never in the
  subtraction of the fee. \<^verbatim>\<open>setFees\<close>, called by the arbitrator without value, stores
  any two rates unchecked. With a rate that makes the fee larger than the amount,
  \<^verbatim>\<open>release\<close> by the client and \<^verbatim>\<open>autoRelease\<close> after the review period, called
  without value, revert with a panic, whatever the world answers.
\<close>

theorem fee_rate_bound_protects_payouts:
  fixes s :: AgentEscrow and i :: bytes32
  defines "e \<equiv> escrows s i"
  defines "protocolFee \<equiv> amount e * protocolFeeBps s div 10000"
  shows "(protocolFeeBps s \<le> 10000 \<longrightarrow>
            protocolFee \<le> amount e
          \<and> sub256 (amount e) protocolFee = Inr (amount e - protocolFee)
          \<and> (release w s t i = Inl Panic \<longrightarrow> MAX_UINT256 < amount e * protocolFeeBps s)
          \<and> (autoRelease w s t i = Inl Panic \<longrightarrow>
                MAX_UINT256 < amount e * protocolFeeBps s
              \<or> MAX_UINT256 < submittedAt e + clientReviewPeriod s)
          \<and> (resolve w s t i pct = Inl Panic \<longrightarrow>
                MAX_UINT256 < amount e * protocolFeeBps s
              \<or> MAX_UINT256 < (amount e - protocolFee) * pct
              \<or> MAX_UINT256 < amount e * disputeFeeBps s))
       \<and> (msg_sender ta = arbitrator s \<and> msg_value ta = 0 \<longrightarrow>
            setFees s ta p d = Inr (s\<lparr> protocolFeeBps := p, disputeFeeBps := d \<rparr>, []))
       \<and> (amount e < protocolFee \<and> amount e * protocolFeeBps s \<le> MAX_UINT256
          \<and> state e = Submitted \<and> msg_value t = 0 \<longrightarrow>
            (msg_sender t = client e \<longrightarrow> release w s t i = Inl Panic)
          \<and> (submittedAt e + clientReviewPeriod s \<le> block_timestamp t
             \<and> submittedAt e + clientReviewPeriod s \<le> MAX_UINT256
               \<longrightarrow> autoRelease w s t i = Inl Panic))"
proof (intro conjI impI)
  assume b: "protocolFeeBps s \<le> 10000"
  show le: "protocolFee \<le> amount e"
    using fee_le_amount[OF b] by (simp add: protocolFee_def)
  show "sub256 (amount e) protocolFee = Inr (amount e - protocolFee)"
    using le by (simp add: sub256_def)
  show "MAX_UINT256 < amount e * protocolFeeBps s" if "release w s t i = Inl Panic"
    using release_Panic[OF b that] by (simp add: e_def)
  show "MAX_UINT256 < amount e * protocolFeeBps s
      \<or> MAX_UINT256 < submittedAt e + clientReviewPeriod s" if "autoRelease w s t i = Inl Panic"
    using autoRelease_Panic[OF b that] by (simp add: e_def)
  show "MAX_UINT256 < amount e * protocolFeeBps s
      \<or> MAX_UINT256 < (amount e - protocolFee) * pct
      \<or> MAX_UINT256 < amount e * disputeFeeBps s" if "resolve w s t i pct = Inl Panic"
    using resolve_Panic[OF b that] by (simp add: e_def protocolFee_def)
next
  assume "msg_sender ta = arbitrator s \<and> msg_value ta = 0"
  then show "setFees s ta p d = Inr (s\<lparr> protocolFeeBps := p, disputeFeeBps := d \<rparr>, [])"
    by (simp add: setFees_def)
next
  assume h: "amount e < protocolFee \<and> amount e * protocolFeeBps s \<le> MAX_UINT256
          \<and> state e = Submitted \<and> msg_value t = 0"
  then have u: "pay_release w s i = Inl Panic"
    using pay_release_underflow[of s i w] by (simp add: e_def protocolFee_def)
  show "release w s t i = Inl Panic" if "msg_sender t = client e"
    using h that u by (simp add: release_def Let_def e_def)
  show "autoRelease w s t i = Inl Panic"
    if "submittedAt e + clientReviewPeriod s \<le> block_timestamp t
             \<and> submittedAt e + clientReviewPeriod s \<le> MAX_UINT256"
    using h that u by (simp add: autoRelease_def Let_def e_def add256_def)
qed

theorem fee_rate_bound_protects_payouts_witness:
  "protocolFeeBps demo \<le> 10000
   \<and> amount (escrows demo 1) * protocolFeeBps demo div 10000 \<le> amount (escrows demo 1)
   \<and> msg_sender (by_arbitrator 2000) = arbitrator demo
   \<and> msg_value (by_arbitrator 2000) = 0
   \<and> setFees demo (by_arbitrator 2000) 20000 100
       = Inr (demo\<lparr> protocolFeeBps := 20000, disputeFeeBps := 100 \<rparr>, [])
   \<and> release (\<lambda>c. Accepted) (demo\<lparr> protocolFeeBps := 20000, disputeFeeBps := 100 \<rparr>)
        (by_client 3000) 1 = Inl Panic"
proof -
  have b: "protocolFeeBps demo \<le> 10000"
    and a: "msg_sender (by_arbitrator 2000) = arbitrator demo"
    and v: "msg_value (by_arbitrator 2000) = 0"
    by (simp_all add: demo_defs)
  have h: "amount (escrows (demo\<lparr> protocolFeeBps := 20000, disputeFeeBps := 100 \<rparr>) 1)
         < amount (escrows (demo\<lparr> protocolFeeBps := 20000, disputeFeeBps := 100 \<rparr>) 1)
           * protocolFeeBps (demo\<lparr> protocolFeeBps := 20000, disputeFeeBps := 100 \<rparr>) div 10000
       \<and> amount (escrows (demo\<lparr> protocolFeeBps := 20000, disputeFeeBps := 100 \<rparr>) 1)
           * protocolFeeBps (demo\<lparr> protocolFeeBps := 20000, disputeFeeBps := 100 \<rparr>)
         \<le> MAX_UINT256
       \<and> state (escrows (demo\<lparr> protocolFeeBps := 20000, disputeFeeBps := 100 \<rparr>) 1) = Submitted
       \<and> msg_value (by_client 3000) = 0"
    and c: "msg_sender (by_client 3000)
         = client (escrows (demo\<lparr> protocolFeeBps := 20000, disputeFeeBps := 100 \<rparr>) 1)"
    by (simp_all add: demo_defs MAX_UINT256_def)
  from fee_rate_bound_protects_payouts[where s = demo and i = 1 and ta = "by_arbitrator 2000"
      and p = 20000 and d = 100] b a v
  have first: "amount (escrows demo 1) * protocolFeeBps demo div 10000 \<le> amount (escrows demo 1)"
    and fees: "setFees demo (by_arbitrator 2000) 20000 100
       = Inr (demo\<lparr> protocolFeeBps := 20000, disputeFeeBps := 100 \<rparr>, [])"
    by blast+
  from fee_rate_bound_protects_payouts[
      where s = "demo\<lparr> protocolFeeBps := 20000, disputeFeeBps := 100 \<rparr>" and i = 1
        and t = "by_client 3000" and w = "\<lambda>c. Accepted"] h c
  have stuck: "release (\<lambda>c. Accepted) (demo\<lparr> protocolFeeBps := 20000, disputeFeeBps := 100 \<rparr>)
        (by_client 3000) 1 = Inl Panic"
    by blast
  from b first a v fees stuck show ?thesis
    by blast
qed

subsection \<open>What a successful call has written\<close>

lemma createEscrow_Inr:
  assumes "createEscrow keccak w s t tok amt dl crit = Inr (i, s', cs)"
  shows "i = keccak (msg_sender t) (escrowCount s) (block_timestamp t)
       \<and> (\<exists>e'. s' = s\<lparr> escrowCount := escrowCount s + 1, escrows := (escrows s)(i := e') \<rparr>)"
  using assms unfolding createEscrow_def Let_def
  by (auto simp: and_then_Inr_iff add256_Inr_iff split: if_splits)

lemma acceptEscrow_Inr:
  assumes "acceptEscrow s t i = Inr (s', cs)"
  shows "state (escrows s i) = Pending \<and> block_timestamp t < deadline (escrows s i) \<and> cs = []
       \<and> msg_value t = 0
       \<and> s' = s\<lparr> escrows := (escrows s)(i := (escrows s i)\<lparr> worker := msg_sender t,
                  state := Active \<rparr>) \<rparr>"
  using assms unfolding acceptEscrow_def Let_def
  by (auto split: if_splits)

lemma submitWork_Inr:
  assumes "submitWork s t i evidence = Inr (s', cs)"
  shows "state (escrows s i) = Active \<and> msg_sender t = worker (escrows s i) \<and> cs = []
       \<and> s' = s\<lparr> escrows := (escrows s)(i := (escrows s i)\<lparr> evidenceHash := evidence,
                  submittedAt := block_timestamp t, state := Submitted \<rparr>) \<rparr>"
  using assms unfolding submitWork_def Let_def
  by (auto split: if_splits)

lemma pay_release_Inr:
  assumes "pay_release w s i = Inr (s', cs)"
  shows "s' = s\<lparr> escrows := (escrows s)(i := (escrows s i)\<lparr> state := Resolved,
                  outcome := FullRelease, completionPct := 100 \<rparr>) \<rparr>"
  using assms unfolding pay_release_def Let_def
  by (auto simp: and_then_Inr_iff)

lemma release_Inr:
  assumes "release w s t i = Inr (s', cs)"
  shows "state (escrows s i) = Submitted \<and> msg_sender t = client (escrows s i)
       \<and> s' = s\<lparr> escrows := (escrows s)(i := (escrows s i)\<lparr> state := Resolved,
                  outcome := FullRelease, completionPct := 100 \<rparr>) \<rparr>"
  using assms pay_release_Inr[of w s i s' cs] unfolding release_def Let_def
  by (auto split: if_splits)

lemma autoRelease_Inr:
  assumes "autoRelease w s t i = Inr (s', cs)"
  shows "state (escrows s i) = Submitted
       \<and> s' = s\<lparr> escrows := (escrows s)(i := (escrows s i)\<lparr> state := Resolved,
                  outcome := FullRelease, completionPct := 100 \<rparr>) \<rparr>"
  using assms pay_release_Inr[of w s i s' cs] unfolding autoRelease_def Let_def
  by (auto simp: and_then_Inr_iff split: if_splits)

lemma resolve_Inr:
  assumes "resolve w s t i pct = Inr (s', cs)"
  shows "state (escrows s i) = Disputed \<and> msg_sender t = arbitrator s \<and> pct \<le> 100
       \<and> (\<exists>oc. s' = s\<lparr> escrows := (escrows s)(i := (escrows s i)\<lparr> state := Resolved,
                  outcome := oc, completionPct := pct \<rparr>) \<rparr>)"
  using assms unfolding resolve_def Let_def
  by (auto simp: and_then_Inr_iff split: if_splits)

lemma admin_Inr:
  "initiateArbitratorTransfer s t a = Inr (s', cs) \<Longrightarrow>
     msg_sender t = arbitrator s \<and> s' = s\<lparr> pendingArbitrator := a \<rparr>"
  "acceptArbitratorTransfer s t = Inr (s', cs) \<Longrightarrow>
     msg_sender t = pendingArbitrator s
     \<and> s' = s\<lparr> arbitrator := pendingArbitrator s, pendingArbitrator := 0 \<rparr>"
  "setFees s t p d = Inr (s', cs) \<Longrightarrow>
     msg_sender t = arbitrator s \<and> s' = s\<lparr> protocolFeeBps := p, disputeFeeBps := d \<rparr>"
  "setLimits s t lo hi = Inr (s', cs) \<Longrightarrow>
     msg_sender t = arbitrator s \<and> s' = s\<lparr> minEscrowAmount := lo, maxEscrowAmount := hi \<rparr>"
  "setTimeouts s t rp at = Inr (s', cs) \<Longrightarrow>
     msg_sender t = arbitrator s \<and> s' = s\<lparr> clientReviewPeriod := rp, arbitrationTimeout := at \<rparr>"
  by (auto simp: initiateArbitratorTransfer_def acceptArbitratorTransfer_def setFees_def
      setLimits_def setTimeouts_def split: if_splits)

lemma dispatch_keeps_arbitrator:
  assumes ok: "dispatch keccak w s t a = Inr (s', cs)" and na: "a \<noteq> AcceptArbitratorTransfer"
  shows "arbitrator s' = arbitrator s"
proof (cases a)
  case (CreateEscrow tok amt dl crit)
  with ok obtain i where "createEscrow keccak w s t tok amt dl crit = Inr (i, s', cs)"
    by (auto simp: and_then_Inr_iff)
  from createEscrow_Inr[OF this] show ?thesis
    by auto
next
  case (AcceptEscrow i)
  with ok acceptEscrow_Inr[of s t i s' cs] show ?thesis by auto
next
  case (SubmitWork i evidence)
  with ok submitWork_Inr[of s t i evidence s' cs] show ?thesis by auto
next
  case (Release i)
  with ok release_Inr[of w s t i s' cs] show ?thesis by auto
next
  case (Dispute i)
  with ok dispute_Inr[of w s t i s' cs] show ?thesis by auto
next
  case (AutoRelease i)
  with ok autoRelease_Inr[of w s t i s' cs] show ?thesis by auto
next
  case (Resolve i pct)
  with ok resolve_Inr[of w s t i pct s' cs] show ?thesis by auto
next
  case (InitiateArbitratorTransfer x)
  with ok admin_Inr(1)[of s t x s' cs] show ?thesis by auto
next
  case AcceptArbitratorTransfer
  with na show ?thesis by simp
next
  case (SetFees p d)
  with ok admin_Inr(3)[of s t p d s' cs] show ?thesis by auto
next
  case (SetLimits lo hi)
  with ok admin_Inr(4)[of s t lo hi s' cs] show ?thesis by auto
next
  case (SetTimeouts rp at)
  with ok admin_Inr(5)[of s t rp at s' cs] show ?thesis by auto
qed

lemma dispatch_keeps_pending:
  assumes ok: "dispatch keccak w s t a = Inr (s', cs)"
    and na: "a \<noteq> AcceptArbitratorTransfer" and ni: "\<forall>x. a \<noteq> InitiateArbitratorTransfer x"
  shows "pendingArbitrator s' = pendingArbitrator s"
proof (cases a)
  case (CreateEscrow tok amt dl crit)
  with ok obtain i where "createEscrow keccak w s t tok amt dl crit = Inr (i, s', cs)"
    by (auto simp: and_then_Inr_iff)
  from createEscrow_Inr[OF this] show ?thesis
    by auto
next
  case (AcceptEscrow i)
  with ok acceptEscrow_Inr[of s t i s' cs] show ?thesis by auto
next
  case (SubmitWork i evidence)
  with ok submitWork_Inr[of s t i evidence s' cs] show ?thesis by auto
next
  case (Release i)
  with ok release_Inr[of w s t i s' cs] show ?thesis by auto
next
  case (Dispute i)
  with ok dispute_Inr[of w s t i s' cs] show ?thesis by auto
next
  case (AutoRelease i)
  with ok autoRelease_Inr[of w s t i s' cs] show ?thesis by auto
next
  case (Resolve i pct)
  with ok resolve_Inr[of w s t i pct s' cs] show ?thesis by auto
next
  case (InitiateArbitratorTransfer x)
  with ni show ?thesis by simp
next
  case AcceptArbitratorTransfer
  with na show ?thesis by simp
next
  case (SetFees p d)
  with ok admin_Inr(3)[of s t p d s' cs] show ?thesis by auto
next
  case (SetLimits lo hi)
  with ok admin_Inr(4)[of s t lo hi s' cs] show ?thesis by auto
next
  case (SetTimeouts rp at)
  with ok admin_Inr(5)[of s t rp at s' cs] show ?thesis by auto
qed

text \<open>
  C8. The handover of the arbitrator. A successful nomination
  (\<^verbatim>\<open>initiateArbitratorTransfer\<close>) is made by the arbitrator in office, records the
  nominee and leaves the arbitrator as it was. Whatever external function a transaction
  calls, if it succeeds and the arbitrator afterwards is another address than before,
  then the function was \<^verbatim>\<open>acceptArbitratorTransfer\<close>, its caller was the nominee on
  record, and the caller is the new arbitrator. \<^verbatim>\<open>acceptArbitratorTransfer\<close>, called
  without value, succeeds for the nominee on record and reverts for every other caller. The nominee on record
  changes only by a nomination of the arbitrator in office or by the accepted handover,
  which clears it. So while no nominee is on record, no call of any sender other than
  \<^verbatim>\<open>address(0)\<close> changes the arbitrator.
\<close>

theorem arbitrator_changes_only_by_handover:
  "(initiateArbitratorTransfer s t nominee = Inr (s1, cs1) \<longrightarrow>
      msg_sender t = arbitrator s \<and> arbitrator s1 = arbitrator s
      \<and> pendingArbitrator s1 = nominee)
   \<and> (dispatch keccak w s t a = Inr (s2, cs2) \<and> arbitrator s2 \<noteq> arbitrator s \<longrightarrow>
      a = AcceptArbitratorTransfer \<and> msg_sender t = pendingArbitrator s
      \<and> arbitrator s2 = msg_sender t)
   \<and> (msg_sender t = pendingArbitrator s \<and> msg_value t = 0 \<longrightarrow>
      acceptArbitratorTransfer s t
        = Inr (s\<lparr> arbitrator := msg_sender t, pendingArbitrator := 0 \<rparr>, []))
   \<and> (msg_sender t \<noteq> pendingArbitrator s \<and> msg_value t = 0 \<longrightarrow>
      acceptArbitratorTransfer s t = Inl OnlyArbitrator)
   \<and> (dispatch keccak w s t a = Inr (s2, cs2)
      \<and> pendingArbitrator s2 \<noteq> pendingArbitrator s \<longrightarrow>
      a = InitiateArbitratorTransfer (pendingArbitrator s2) \<and> msg_sender t = arbitrator s
      \<or> a = AcceptArbitratorTransfer \<and> msg_sender t = pendingArbitrator s
        \<and> pendingArbitrator s2 = 0)
   \<and> (pendingArbitrator s = 0 \<and> msg_sender t \<noteq> 0
      \<and> dispatch keccak w s t a = Inr (s2, cs2) \<longrightarrow>
      arbitrator s2 = arbitrator s)"
proof (intro conjI impI)
  assume "initiateArbitratorTransfer s t nominee = Inr (s1, cs1)"
  from admin_Inr(1)[OF this]
  show "msg_sender t = arbitrator s" "arbitrator s1 = arbitrator s"
    "pendingArbitrator s1 = nominee"
    by simp_all
next
  assume h: "dispatch keccak w s t a = Inr (s2, cs2) \<and> arbitrator s2 \<noteq> arbitrator s"
  then show a: "a = AcceptArbitratorTransfer"
    using dispatch_keeps_arbitrator[of keccak w s t a s2 cs2] by blast
  from h a have "acceptArbitratorTransfer s t = Inr (s2, cs2)"
    by simp
  from admin_Inr(2)[OF this]
  show "msg_sender t = pendingArbitrator s" "arbitrator s2 = msg_sender t"
    by simp_all
next
  assume "msg_sender t = pendingArbitrator s \<and> msg_value t = 0"
  then show "acceptArbitratorTransfer s t
        = Inr (s\<lparr> arbitrator := msg_sender t, pendingArbitrator := 0 \<rparr>, [])"
    by (simp add: acceptArbitratorTransfer_def)
next
  assume "msg_sender t \<noteq> pendingArbitrator s \<and> msg_value t = 0"
  then show "acceptArbitratorTransfer s t = Inl OnlyArbitrator"
    by (simp add: acceptArbitratorTransfer_def)
next
  assume h: "dispatch keccak w s t a = Inr (s2, cs2)
      \<and> pendingArbitrator s2 \<noteq> pendingArbitrator s"
  then consider (accept) "a = AcceptArbitratorTransfer"
    | (nominate) x where "a = InitiateArbitratorTransfer x"
    using dispatch_keeps_pending[of keccak w s t a s2 cs2] by blast
  then show "a = InitiateArbitratorTransfer (pendingArbitrator s2) \<and> msg_sender t = arbitrator s
      \<or> a = AcceptArbitratorTransfer \<and> msg_sender t = pendingArbitrator s
        \<and> pendingArbitrator s2 = 0"
  proof cases
    case accept
    with h have "acceptArbitratorTransfer s t = Inr (s2, cs2)"
      by simp
    from admin_Inr(2)[OF this] accept show ?thesis
      by simp
  next
    case nominate
    with h have "initiateArbitratorTransfer s t x = Inr (s2, cs2)"
      by simp
    from admin_Inr(1)[OF this] nominate show ?thesis
      by simp
  qed
next
  assume h: "pendingArbitrator s = 0 \<and> msg_sender t \<noteq> 0
      \<and> dispatch keccak w s t a = Inr (s2, cs2)"
  show "arbitrator s2 = arbitrator s"
  proof (cases "a = AcceptArbitratorTransfer")
    case True
    with h have "acceptArbitratorTransfer s t = Inr (s2, cs2)"
      by simp
    from admin_Inr(2)[OF this] h show ?thesis
      by simp
  next
    case False
    with h dispatch_keeps_arbitrator[of keccak w s t a s2 cs2] show ?thesis
      by blast
  qed
qed

theorem arbitrator_changes_only_by_handover_witness:
  "initiateArbitratorTransfer demo (by_arbitrator 2000) 13
     = Inr (demo\<lparr> pendingArbitrator := 13 \<rparr>, [])
   \<and> arbitrator (demo\<lparr> pendingArbitrator := 13 \<rparr>) = arbitrator demo
   \<and> dispatch (\<lambda>a n ts. 0) (\<lambda>c. Accepted) (demo\<lparr> pendingArbitrator := 13 \<rparr>) (by_stranger 3000)
       AcceptArbitratorTransfer
     = Inr (demo\<lparr> pendingArbitrator := 0, arbitrator := 13 \<rparr>, [])
   \<and> arbitrator (demo\<lparr> pendingArbitrator := 0, arbitrator := 13 \<rparr>) \<noteq> arbitrator demo
   \<and> msg_sender (by_stranger 3000) = pendingArbitrator (demo\<lparr> pendingArbitrator := 13 \<rparr>)
   \<and> acceptArbitratorTransfer (demo\<lparr> pendingArbitrator := 13 \<rparr>) (by_client 3000)
     = Inl OnlyArbitrator"
proof -
  have i: "initiateArbitratorTransfer demo (by_arbitrator 2000) 13
     = Inr (demo\<lparr> pendingArbitrator := 13 \<rparr>, [])"
    by (simp add: initiateArbitratorTransfer_def demo_defs)
  have d: "dispatch (\<lambda>a n ts. 0) (\<lambda>c. Accepted) (demo\<lparr> pendingArbitrator := 13 \<rparr>)
       (by_stranger 3000) AcceptArbitratorTransfer
     = Inr (demo\<lparr> pendingArbitrator := 0, arbitrator := 13 \<rparr>, [])"
    by (simp add: acceptArbitratorTransfer_def demo_defs)
  have n: "arbitrator (demo\<lparr> pendingArbitrator := 0, arbitrator := 13 \<rparr>)
      \<noteq> arbitrator (demo\<lparr> pendingArbitrator := 13 \<rparr>)"
    and m: "msg_sender (by_client 3000) \<noteq> pendingArbitrator (demo\<lparr> pendingArbitrator := 13 \<rparr>)"
    and v: "msg_value (by_client 3000) = 0"
    by (simp_all add: demo_defs)
  from arbitrator_changes_only_by_handover[of demo "by_arbitrator 2000" 13
      "demo\<lparr> pendingArbitrator := 13 \<rparr>" "[]"] i
  have one: "arbitrator (demo\<lparr> pendingArbitrator := 13 \<rparr>) = arbitrator demo"
    by blast
  from arbitrator_changes_only_by_handover[of "demo\<lparr> pendingArbitrator := 13 \<rparr>"
      "by_stranger 3000" _ _ _ "\<lambda>a n ts. 0" "\<lambda>c. Accepted" AcceptArbitratorTransfer
      "demo\<lparr> pendingArbitrator := 0, arbitrator := 13 \<rparr>" "[]"] d n
  have two: "msg_sender (by_stranger 3000) = pendingArbitrator (demo\<lparr> pendingArbitrator := 13 \<rparr>)"
    by blast
  from arbitrator_changes_only_by_handover[of "demo\<lparr> pendingArbitrator := 13 \<rparr>"
      "by_client 3000"] m v
  have three: "acceptArbitratorTransfer (demo\<lparr> pendingArbitrator := 13 \<rparr>) (by_client 3000)
     = Inl OnlyArbitrator"
    by blast
  from n one have four: "arbitrator (demo\<lparr> pendingArbitrator := 0, arbitrator := 13 \<rparr>)
      \<noteq> arbitrator demo"
    by simp
  from i one d four two three show ?thesis
    by blast
qed

subsection \<open>The state of one escrow along a run\<close>










section \<open>Where the main contract leaves the documented behaviour\<close>

subsection \<open>The review period and \<^verbatim>\<open>dispute\<close>\<close>

lemma dispute_ignores_time:
  "dispute w s (t\<lparr> block_timestamp := n \<rparr>) i = dispute w s t i"
  by (simp add: dispute_def Let_def cong: if_cong)

lemma dispute_V1_after_timeout:
  assumes "EscrowData.client (Escrow_V1.escrows s i) \<noteq> 0"
    and "EscrowData.state (Escrow_V1.escrows s i) = SUBMITTED"
    and "msg_sender t = EscrowData.client (Escrow_V1.escrows s i)"
    and "msg_value t = 0"
    and "EscrowData.submittedAt (Escrow_V1.escrows s i) + REVIEW_TIMEOUT \<le> MAX_UINT256"
    and "EscrowData.submittedAt (Escrow_V1.escrows s i) + REVIEW_TIMEOUT < block_timestamp t"
  shows "dispute_V1 s t i = Inl ReviewPeriodActive"
  using assms by (simp add: dispute_V1_def Let_def add256_def)

text \<open>
  C2. The failing input. Escrow 1 was submitted at time 1000 and the review period is
  14400, so the period is over from 15400 on. At time 100000 the client calls
  \<^verbatim>\<open>dispute\<close>, the token hands over the fee: the call succeeds and the escrow is
  Disputed. \<^verbatim>\<open>dispute\<close> of \<^verbatim>\<open>AgentEscrow.sol\<close> never reads the clock.
\<close>

theorem dispute_after_review_period_succeeds:
  "state (escrows demo 1) = Submitted
   \<and> submittedAt (escrows demo 1) + clientReviewPeriod demo = 15400
   \<and> dispute accepting demo (by_client 100000) 1
       = Inr (demo_disputed, [TokenTransferFrom 77 11 10000000])
   \<and> state (escrows demo_disputed 1) = Disputed"
  by (simp add: dispute_def pull_token_def demo_defs arith_defs)

subsection \<open>The client as worker\<close>

lemma createEscrow_V1_own_worker:
  assumes "MIN_ESCROW \<le> msg_value t" and "msg_value t \<le> MAX_ESCROW"
  shows "createEscrow_V1 keccak s t (msg_sender t) dl crit = Inl InvalidWorker"
  using assms by (simp add: createEscrow_V1_def)

lemma acceptEscrow_V1_only_worker:
  assumes "acceptEscrow_V1 s t i = Inr (s', cs)"
  shows "msg_sender t = EscrowData.worker (Escrow_V1.escrows s i)"
  using assms by (auto simp: acceptEscrow_V1_def Let_def split: if_splits)

text \<open>
  C3. The failing input. Escrow 1 is Pending, its client is address 11, its deadline is
  5000. At time 200 the client calls \<^verbatim>\<open>acceptEscrow\<close>: the call succeeds, the client is
  now the worker too, and the escrow is Active.
\<close>

theorem client_accepts_own_escrow:
  "state (escrows demo_pending 1) = Pending
   \<and> msg_sender (by_client 200) = client (escrows demo_pending 1)
   \<and> acceptEscrow demo_pending (by_client 200) 1
       = Inr (demo_with (demo_escrow\<lparr> worker := 11, state := Active, submittedAt := 0,
                evidenceHash := 0 \<rparr>), [])"
  by (simp add: acceptEscrow_def demo_defs)

subsection \<open>A token that refuses\<close>

lemma native_refusal_reverts:
  assumes "n \<noteq> 0" and "w (NativeSend r n) \<noteq> Accepted"
  shows "internal_transfer w 0 r n = Inl TransferFailed"
  using assms by (simp add: internal_transfer_def)

lemma token_refusal_ignored:
  assumes "tok \<noteq> 0" and "w (TokenTransfer tok r n) = Rejected"
  shows "internal_transfer w tok r n = Inr []"
  using assms by (simp add: internal_transfer_def)

lemma transferFunds_refusal_reverts:
  assumes "tok \<noteq> 0" and "w (TokenTransfer tok r n) = Rejected"
  shows "transferFunds w tok r n = Inl TransferFailed"
  using assms by (simp add: transferFunds_def)

text \<open>
  C6. The failing input. The token of escrow 1 answers \<^verbatim>\<open>false\<close> to every transfer and
  moves nothing. The client calls \<^verbatim>\<open>release\<close>: the call succeeds, the escrow is
  Resolved as a full release, and no balance has moved. With the same token,
  \<^verbatim>\<open>createEscrow\<close> records an escrow of 1000000000 units for which nothing was paid in.
\<close>

theorem refused_transfer_taken_for_success:
  "release refusing demo (by_client 2000) 1 = Inr (demo_released, [])
   \<and> state (escrows demo_released 1) = Resolved
   \<and> (case createEscrow demo_keccak refusing (constructor 10) (by_client 100) 77 1000000000 5000 1
        of Inl err \<Rightarrow> False
         | Inr (escrowId, s', cs) \<Rightarrow>
             escrowId = 1 \<and> amount (escrows s' 1) = 1000000000
             \<and> state (escrows s' 1) = Pending \<and> cs = [])"
  by (simp add: release_def pay_release_def createEscrow_def internal_transfer_def
      pull_token_def demo_defs arith_defs)

subsection \<open>An identifier no escrow was created for\<close>

lemma acceptEscrow_unknown:
  assumes "escrows s i = zero_Escrow" and "msg_value t = 0"
  shows "acceptEscrow s t i = Inl DeadlinePassed"
  using assms by (simp add: acceptEscrow_def zero_Escrow_def)

lemma acceptEscrow_V1_unknown:
  assumes "Escrow_V1.escrows s i = zero_EscrowData" and "msg_value t = 0"
  shows "acceptEscrow_V1 s t i = Inl EscrowNotFound"
  using assms by (simp add: acceptEscrow_V1_def zero_EscrowData_def)

text \<open>
  C9. The failing input. On a contract just deployed, where no escrow was ever created,
  address 12 calls \<^verbatim>\<open>acceptEscrow\<close> on identifier 5 at time 200: the call reverts with
  \<^verbatim>\<open>DeadlinePassed\<close>. The contract has no error for an unknown identifier.
\<close>

theorem accept_unknown_escrow_deadline_passed:
  "escrows (constructor 10) 5 = zero_Escrow
   \<and> acceptEscrow (constructor 10) (by_worker 200) 5 = Inl DeadlinePassed"
  by (simp add: acceptEscrow_def demo_defs)

section \<open>The V1 contract on the same points\<close>

lemma transferFunds_accepted:
  "\<forall>c. w c = Accepted \<Longrightarrow>
     transferFunds w tok r n = Inr [if tok = 0 then NativeSend r n else TokenTransfer tok r n]"
  by (simp add: transferFunds_def)

lemma guarded_transferFunds:
  "\<forall>c. w c = Accepted \<Longrightarrow>
     (if 0 < n then transferFunds w tok r n else Inr []) = Inr (payment tok r n)"
  by (simp add: transferFunds_accepted payment_def)

lemma resolveDispute_conserves:
  assumes ok: "resolveDispute w s t i pct = Inr (s', cs)" and acc: "\<forall>c. w c = Accepted"
  shows "total_moved cs = EscrowData.amount (Escrow_V1.escrows s i)"
  using ok unfolding resolveDispute_def Let_def guarded_transferFunds[OF acc]
  by (auto simp: and_then_Inr_iff mul256_Inr_iff sub256_Inr_iff total_moved_append
      total_moved_payment split: if_splits)

lemma claimExpiredEscrow_Inr:
  assumes "claimExpiredEscrow w s t i = Inr (s', cs)"
  shows "msg_sender t = EscrowData.worker (Escrow_V1.escrows s i)
       \<and> EscrowData.submittedAt (Escrow_V1.escrows s i) + REVIEW_TIMEOUT < block_timestamp t"
  using assms unfolding claimExpiredEscrow_def Let_def
  by (auto simp: and_then_Inr_iff add256_Inr_iff split: if_splits)

lemma setProtocolArbiter_by_owner:
  assumes "msg_sender t = Escrow_V1.owner s" and "msg_value t = 0"
  shows "setProtocolArbiter s t a = Inr (s\<lparr> protocolArbiter := a \<rparr>, [])"
  using assms by (simp add: setProtocolArbiter_def)

end
